theory Spec2Isabelle
  imports Complex_Main "HOL-Library.Sublist"
begin

section \<open>The notebook \<^verbatim>\<open>demo.ipynb\<close> as a sequential script\<close>

text \<open>
  The repository is one notebook. Its code cells, run from top to bottom, read three CSV
  files, call the remote twinLab service (upload, list, summarise, train, predict, delete)
  and draw two figures. The model below is the notebook's code, cell by cell:
  \<^item> the file system and the remote service are the script's environment, a \<open>world\<close>;
    nothing is assumed about what they answer;
  \<^item> every call that leaves the script (a file read, a remote call, a display, a figure)
    is logged, with its outcome, in a trace;
  \<^item> an exception raised by a call, or by pandas on a missing column or row, ends the
    script there: no cell has a \<^verbatim>\<open>try\<close>.
  Numeric cell values are kept as their text; the float arithmetic of the plots
  (division by \<open>10**y_fac\<close>, \<open>mean \<plusminus> nsig*err\<close>, transparency) and the wall-clock
  readings around the training call are not modelled.
\<close>

subsection \<open>Paths\<close>

text \<open>
  \<^verbatim>\<open>os.path.join(a, *p)\<close>, as \<^verbatim>\<open>posixpath.join\<close> computes it, with the separator a
  parameter (\<open>/\<close> on POSIX). For components with no drive letter and no separator inside,
  as all components of the notebook are, \<^verbatim>\<open>ntpath.join\<close> computes the same with the
  backslash as separator.
\<close>

definition startswith :: "string \<Rightarrow> char \<Rightarrow> bool" where
  "startswith b sep = (case b of [] \<Rightarrow> False | c # _ \<Rightarrow> c = sep)"

definition endswith :: "string \<Rightarrow> char \<Rightarrow> bool" where
  "endswith path sep = (path \<noteq> [] \<and> last path = sep)"

fun os_path_join :: "char \<Rightarrow> string \<Rightarrow> string list \<Rightarrow> string" where
  "os_path_join sep path [] = path"
| "os_path_join sep path (b # p) =
     os_path_join sep
       (if startswith b sep then b
        else if path = [] \<or> endswith path sep then path @ b
        else path @ [sep] @ b) p"

definition file_train :: "char \<Rightarrow> string" where
  "file_train sep = os_path_join sep ''resources'' [''datasets'', ''ukaea_big.csv'']"

definition emulator_dir :: "char \<Rightarrow> string" where
  "emulator_dir sep = os_path_join sep ''resources'' [''campaigns'', ''ukaea'']"

definition file_grid :: "char \<Rightarrow> string" where
  "file_grid sep = os_path_join sep (emulator_dir sep) [''grid.csv'']"

definition file_eval :: "char \<Rightarrow> string" where
  "file_eval sep = os_path_join sep (emulator_dir sep) [''test.csv'']"

definition dataset_id :: string where
  "dataset_id = ''tritium_desorption''"

definition emulator_id :: string where
  "emulator_id = dataset_id"

subsection \<open>Tables\<close>

text \<open>
  A pandas DataFrame: column labels and rows of cells. A header row gives string labels;
  \<^verbatim>\<open>header=None\<close> gives the integer labels 0, 1, ...
\<close>

datatype label = Name string | Pos nat

record table =
  columns :: "label list"
  rows :: "string list list"

datatype error =
    EmptyDataError
  | KeyError "label list"
  | IndexError
  | TypeError
  | ValueError
  | Failure string

definition bindE :: "error + 'a \<Rightarrow> ('a \<Rightarrow> error + 'b) \<Rightarrow> error + 'b" where
  "bindE r f = (case r of Inl e \<Rightarrow> Inl e | Inr x \<Rightarrow> f x)"

text \<open>
  \<^verbatim>\<open>pd.read_csv\<close> on the records of a file (its non-blank lines, split into fields; the
  splitting itself is not modelled). With a header the first record names the columns
  and the others are the data rows; with \<^verbatim>\<open>header=None\<close> every record is a data row.
  A file with no record raises \<^verbatim>\<open>EmptyDataError\<close>.

  The records are those of a regular file: the labels of a header are distinct and no
  record is longer than the first. Outside of this pandas does more than is modelled
  here: it renames a repeated label (\<open>y0\<close>, \<open>y0.1\<close>), takes the first field of every row
  as the index when all rows have one field more than the header, and raises
  \<^verbatim>\<open>ParserError\<close> on other longer rows. A file that pandas refuses is an error of
  \<open>files\<close> below.
\<close>

definition pd_parse :: "bool \<Rightarrow> string list list \<Rightarrow> error + table" where
  "pd_parse header recs =
     (case recs of
        [] \<Rightarrow> Inl EmptyDataError
      | r # rs \<Rightarrow>
          if header then Inr \<lparr>columns = map Name r, rows = rs\<rparr>
          else Inr \<lparr>columns = map Pos [0..<length r], rows = r # rs\<rparr>)"

definition len :: "table \<Rightarrow> nat" where
  "len t = length (rows t)"

text \<open>\<^verbatim>\<open>df.iloc[:n, :]\<close>: the first \<open>n\<close> rows, all columns.\<close>

definition iloc_rows :: "nat \<Rightarrow> table \<Rightarrow> table" where
  "iloc_rows n t = t\<lparr>rows := take n (rows t)\<rparr>"

text \<open>A field missing from a short row reads as NaN.\<close>

definition cell :: "string list \<Rightarrow> nat \<Rightarrow> string" where
  "cell r i = (if i < length r then r ! i else ''nan'')"

fun index_of :: "label list \<Rightarrow> label \<Rightarrow> nat" where
  "index_of [] c = 0"
| "index_of (x # xs) c = (if x = c then 0 else Suc (index_of xs c))"

text \<open>\<^verbatim>\<open>df[c]\<close> and \<^verbatim>\<open>df[cs]\<close>: a missing label raises \<^verbatim>\<open>KeyError\<close>.\<close>

definition getitem :: "table \<Rightarrow> label \<Rightarrow> error + string list" where
  "getitem t c =
     (if c \<in> set (columns t)
      then Inr (map (\<lambda>r. cell r (index_of (columns t) c)) (rows t))
      else Inl (KeyError [c]))"

definition getitems :: "table \<Rightarrow> label list \<Rightarrow> error + table" where
  "getitems t cs =
     (case filter (\<lambda>c. c \<notin> set (columns t)) cs of
        [] \<Rightarrow> Inr \<lparr>columns = cs,
                  rows = map (\<lambda>r. map (\<lambda>c. cell r (index_of (columns t) c)) cs) (rows t)\<rparr>
      | missing \<Rightarrow> Inl (KeyError missing))"

text \<open>\<^verbatim>\<open>df.iloc[i]\<close> for \<open>i \<ge> 0\<close> and \<^verbatim>\<open>df.iloc[:, 0]\<close>: out of range raises \<^verbatim>\<open>IndexError\<close>.\<close>

definition iloc_row :: "table \<Rightarrow> nat \<Rightarrow> error + string list" where
  "iloc_row t i =
     (if i < length (rows t)
      then Inr (map (cell (rows t ! i)) [0..<length (columns t)])
      else Inl IndexError)"

definition iloc_col0 :: "table \<Rightarrow> error + string list" where
  "iloc_col0 t =
     (if columns t = [] then Inl IndexError else Inr (map (\<lambda>r. cell r 0) (rows t)))"

subsection \<open>Column names\<close>

text \<open>Python's \<^verbatim>\<open>str\<close> of a non-negative integer, for the f-string \<^verbatim>\<open>f"y{i}"\<close>.\<close>

fun str_nat :: "nat \<Rightarrow> string" where
  "str_nat n =
     (if n < 10 then [''0123456789'' ! n]
      else str_nat (n div 10) @ [''0123456789'' ! (n mod 10)])"

declare str_nat.simps [simp del]

definition inputs :: "label list" where
  "inputs = map Name [''E1'', ''E2'', ''E3'', ''n1'', ''n2'']"

text \<open>\<^verbatim>\<open>outputs = [f"y{i}" for i in range(len(df_grid))]\<close>\<close>

definition outputs :: "table \<Rightarrow> label list" where
  "outputs df_grid = map (\<lambda>i. Name (''y'' @ str_nat i)) [0..<len df_grid]"

subsection \<open>Figures\<close>

text \<open>
  The pyplot calls of a plotting cell, in the order the cell makes them, with the data
  each one is given. A curve computed from a row (\<open>row / 10**y_fac\<close>) carries the row.
\<close>

datatype draw =
    Subplots nat nat
  | Subplot nat nat nat
  | ErrorBar "string list" "string list" "string list" string "string option"
  | Line "string list" "string list" string "string option"
  | FillBetween "string list" "string list" "string list" nat string "string option"
  | Blur "string list" "string list" "string list" nat "string option"
  | LegendStub string "string option"
  | XLabel string
  | YLabel string
  | XLim "string list"
  | YLim
  | Legend
  | Show

fun forE :: "'a list \<Rightarrow> ('a \<Rightarrow> error + draw list) \<Rightarrow> error + draw list" where
  "forE [] body = Inr []"
| "forE (x # xs) body =
     bindE (body x) (\<lambda>ds. bindE (forE xs body) (\<lambda>ds'. Inr (ds @ ds')))"

text \<open>The cell "Plot some examples".\<close>

definition color :: string where "color = ''blue''"

definition xs :: "(string \<times> string) list" where
  "xs = [(''E1'', ''$E_{1}$''), (''E2'', ''$E_{2}$''), (''E3'', ''$E_{3}$''),
         (''n1'', ''$n_{1}$''), (''n2'', ''$n_{2}$'')]"

definition ys :: "(string \<times> string) list" where
  "ys = map (\<lambda>i. (''y'' @ str_nat i, ''$y_{'' @ str_nat i @ ''}$'')) [0, 100, 150]"

text \<open>
  \<^verbatim>\<open>plt.errorbar(x, y, yerr=yerr, ...)\<close> raises \<^verbatim>\<open>ValueError\<close> unless \<open>x\<close>, \<open>y\<close> and
  \<open>yerr\<close> have the same size. The other pyplot calls of the notebook are given data of
  equal sizes by construction: two columns of one table, or the grid and a row of
  \<open>len(df_grid)\<close> output columns.
\<close>

definition plt_errorbar ::
  "string list \<Rightarrow> string list \<Rightarrow> string list \<Rightarrow> string \<Rightarrow> string option \<Rightarrow> error + draw" where
  "plt_errorbar x y yerr c l =
     (if length x = length y \<and> length yerr = length y then Inr (ErrorBar x y yerr c l)
      else Inl ValueError)"

text \<open>
  The two nested loops visit the pairs of \<open>List.product ys xs\<close> in order, and
  \<open>nplot\<close> counts them from 1.
\<close>

definition plot_examples :: "table \<Rightarrow> table \<Rightarrow> table \<Rightarrow> table \<Rightarrow> error + draw list" where
  "plot_examples df_train df_eval df_mean df_std =
     (let nrow = length ys; ncol = length xs in
      bindE (forE (enumerate 1 (List.product ys xs))
        (\<lambda>(nplot, (y, y_label), (x, x_label)).
           bindE (getitem df_eval (Name x)) (\<lambda>ex.
           bindE (getitem df_mean (Name y)) (\<lambda>my.
           bindE (getitem df_std (Name y)) (\<lambda>sy.
           bindE (plt_errorbar ex my sy color (Some ''Model'')) (\<lambda>errorbar.
           bindE (getitem df_train (Name x)) (\<lambda>tx.
           bindE (getitem df_train (Name y)) (\<lambda>ty.
           Inr ([Subplot nrow ncol nplot,
                 errorbar,
                 Line tx ty ''black'' (Some ''Training data''),
                 XLabel x_label, YLabel y_label]
                @ (if nplot = 1 then [Legend] else []))))))))))
        (\<lambda>ds. Inr (Subplots nrow ncol # ds @ [Show])))"

text \<open>The cell "Plot results", with its parameters.\<close>

definition y_fac :: nat where "y_fac = 18"
definition plot_eval :: bool where "plot_eval = True"
definition plot_model_mean :: bool where "plot_model_mean = True"
definition plot_model_bands :: bool where "plot_model_bands = True"
definition plot_model_blur :: bool where "plot_model_blur = False"
definition nsigs :: "nat list" where "nsigs = [1, 2]"
definition n_model_blur :: nat where "n_model_blur = 100"
definition model_color :: string where "model_color = ''blue''"
definition number_of_training_examples :: nat where "number_of_training_examples = 0"
definition number_of_model_examples :: nat where "number_of_model_examples = 5"

text \<open>
  \<^verbatim>\<open>df[outputs].iloc[example]\<close>, the row that the cell then divides by \<open>10**y_fac\<close>.
\<close>

definition output_row :: "table \<Rightarrow> label list \<Rightarrow> nat \<Rightarrow> error + string list" where
  "output_row df outs example = bindE (getitems df outs) (\<lambda>t. iloc_row t example)"

text \<open>
  The guard of the test-data curve, as the cell writes it: \<open>file_eval\<close> was built by
  \<^verbatim>\<open>os.path.join\<close>, the right-hand side by \<open>+\<close>.
\<close>

definition test_data_guard :: "char \<Rightarrow> bool" where
  "test_data_guard sep = (plot_eval \<and> file_eval sep = emulator_dir sep @ ''test.csv'')"

text \<open>
  The body of the loop over training examples, and the body of the loop over model
  predictions. The blur branch calls \<^verbatim>\<open>tl.get_blur_alpha\<close> and
  \<^verbatim>\<open>tl.get_blur_boundaries\<close> of the twinLab library; its fills are kept as the
  single command \<open>Blur\<close>.
\<close>

definition training_example ::
  "table \<Rightarrow> label list \<Rightarrow> string list \<Rightarrow> nat \<Rightarrow> error + draw list" where
  "training_example df_train outs grid example =
     bindE (output_row df_train outs example) (\<lambda>train.
     Inr [Line grid train ''black''
            (if example = 0 then Some ''Example training data'' else None)])"

definition model_prediction ::
  "char \<Rightarrow> table \<Rightarrow> table \<Rightarrow> table \<Rightarrow> label list \<Rightarrow> string list \<Rightarrow> nat \<Rightarrow> error + draw list" where
  "model_prediction sep df_eval df_mean df_std outs grid example =
     bindE (output_row df_mean outs example) (\<lambda>mean.
     bindE (output_row df_std outs example) (\<lambda>err.
     bindE (if test_data_guard sep
            then bindE (output_row df_eval outs example) (\<lambda>eval.
                 Inr [Line grid eval ''black''
                        (if example = 0 then Some ''Test data'' else None)])
            else Inr [])
       (\<lambda>test_data.
     Inr (test_data
          @ (if plot_model_bands
             then map (\<lambda>(isig, nsig).
                    FillBetween grid mean err nsig model_color
                      (if isig = 0 \<and> example = 0 then Some ''Model predictions'' else None))
                    (enumerate 0 nsigs)
             else [])
          @ (if plot_model_blur \<and> \<not> plot_model_bands
             then [Blur grid mean err n_model_blur
                     (if example = 0 then Some ''Model predictions'' else None)]
             else [])
          @ (if plot_model_mean
             then [Line grid mean model_color
                     (if example = 0 \<and> \<not> plot_model_bands \<and> \<not> plot_model_blur
                      then Some ''Model predictions'' else None)]
             else [])))))"

definition plot_results ::
  "char \<Rightarrow> table \<Rightarrow> table \<Rightarrow> table \<Rightarrow> table \<Rightarrow> table \<Rightarrow> label list \<Rightarrow> error + draw list" where
  "plot_results sep df_train df_eval df_grid df_mean df_std outs =
     bindE (iloc_col0 df_grid) (\<lambda>grid.
     bindE (forE [0..<number_of_training_examples] (training_example df_train outs grid))
       (\<lambda>training_curves.
     bindE (forE [0..<number_of_model_examples]
              (model_prediction sep df_eval df_mean df_std outs grid))
       (\<lambda>model_curves.
     Inr ([Subplots 1 1]
          @ (if (plot_model_blur \<or> plot_model_bands) \<and> \<not> plot_model_mean
             then [LegendStub model_color (Some ''Model predictions'')] else [])
          @ training_curves @ model_curves
          @ [XLabel ''Temperature [K]'', XLim grid,
             YLabel (''Desorption rate [$10^{'' @ str_nat y_fac @ ''}$ $m^{-2}$ $s^{-1}$]''),
             YLim, Legend, Show]))))"

subsection \<open>The environment and the trace\<close>

text \<open>\<^verbatim>\<open>tl.TrainParams(output_explained_variance=0.9, train_test_ratio=0.5)\<close>\<close>

record train_params =
  output_explained_variance :: rat
  train_test_ratio :: rat

definition params :: train_params where
  "params = \<lparr>output_explained_variance = 9 / 10, train_test_ratio = 1 / 2\<rparr>"

datatype figure = Examples | Results

text \<open>
  The calls that leave the script. A dataset or emulator handle (\<^verbatim>\<open>tl.Dataset(id)\<close>,
  \<^verbatim>\<open>tl.Emulator(id)\<close>) is its identifier; building the handle is local.
  \<open>Display\<close> is \<^verbatim>\<open>display(df)\<close>, \<open>Print\<close> the line that prints the duration of the
  training, and \<open>Plot\<close> a plotting cell with all its pyplot calls. The script has no
  call that writes a file.
\<close>

datatype event =
    ReadCsv string bool
  | Display table
  | Print
  | Upload string table
  | ListDatasets
  | SummariseDataset string
  | Train string string "label list" "label list" train_params
  | ListEmulators
  | SummariseEmulator string
  | Predict string table
  | Plot figure "draw list"
  | DeleteEmulator string
  | DeleteDataset string

text \<open>
  The answer to a call: nothing that the script uses (\<open>Ack\<close>; Python's \<^verbatim>\<open>None\<close> or a
  listing that the cell throws away), or the pair of tables of a prediction.
\<close>

datatype response = Ack | Tables table table

type_synonym entry = "event \<times> (error + response)"

text \<open>
  The platform's path separator, the CSV records of each file (or the error that reading
  it raises), and the answer of the service (or of the local display) to each call, which
  may depend on everything that happened before.
\<close>

record world =
  os_sep :: char
  files :: "string \<Rightarrow> error + string list list"
  service :: "entry list \<Rightarrow> event \<Rightarrow> error + response"

type_synonym 'a prog = "entry list \<Rightarrow> (error + 'a) \<times> entry list"

definition returnP :: "'a \<Rightarrow> 'a prog" where
  "returnP x = (\<lambda>tr. (Inr x, tr))"

definition raiseP :: "error \<Rightarrow> 'a prog" where
  "raiseP e = (\<lambda>tr. (Inl e, tr))"

definition liftE :: "error + 'a \<Rightarrow> 'a prog" where
  "liftE r = (\<lambda>tr. (r, tr))"

text \<open>Sequencing: an exception skips everything that follows.\<close>

definition bindP :: "'a prog \<Rightarrow> ('a \<Rightarrow> 'b prog) \<Rightarrow> 'b prog" where
  "bindP m f = (\<lambda>tr. case m tr of (Inl e, tr') \<Rightarrow> (Inl e, tr') | (Inr x, tr') \<Rightarrow> f x tr')"

definition perform :: "world \<Rightarrow> event \<Rightarrow> response prog" where
  "perform w ev = (\<lambda>tr. let r = service w tr ev in (r, tr @ [(ev, r)]))"

definition pd_read_csv :: "world \<Rightarrow> string \<Rightarrow> bool \<Rightarrow> table prog" where
  "pd_read_csv w path header =
     (\<lambda>tr. let r = bindE (files w path) (pd_parse header)
           in (r, tr @ [(ReadCsv path header, map_sum id (\<lambda>_. Ack) r)]))"

text \<open>
  \<^verbatim>\<open>df_mean, df_std = emulator.predict(df_eval, verbose=False)\<close>: an answer without
  a value cannot be unpacked (\<^verbatim>\<open>TypeError\<close>).
\<close>

definition predict :: "world \<Rightarrow> string \<Rightarrow> table \<Rightarrow> (table \<times> table) prog" where
  "predict w emulator df =
     bindP (perform w (Predict emulator df))
       (\<lambda>r. case r of Tables m s \<Rightarrow> returnP (m, s) | Ack \<Rightarrow> raiseP TypeError)"

subsection \<open>The script\<close>

text \<open>The notebook's variables when the last cell has run.\<close>

record namespace =
  ns_train :: table
  ns_eval :: table
  ns_grid :: table
  ns_inputs :: "label list"
  ns_outputs :: "label list"
  ns_mean :: table
  ns_std :: table

definition script :: "world \<Rightarrow> namespace prog" where
  "script w =
     (let sep = os_sep w in
      \<comment> \<open>load the data\<close>
      bindP (pd_read_csv w (file_train sep) True) (\<lambda>df_big.
      let df_train = iloc_rows 1000 df_big in
      bindP (pd_read_csv w (file_eval sep) True) (\<lambda>df_eval.
      bindP (pd_read_csv w (file_grid sep) False) (\<lambda>df_grid.
      bindP (perform w (Display df_train)) (\<lambda>_.
      \<comment> \<open>upload, list, summarise\<close>
      let dataset = dataset_id in
      bindP (perform w (Upload dataset df_train)) (\<lambda>_.
      bindP (perform w ListDatasets) (\<lambda>_.
      bindP (perform w (SummariseDataset dataset)) (\<lambda>_.
      \<comment> \<open>train\<close>
      let emulator = emulator_id; outs = outputs df_grid in
      bindP (perform w (Train emulator dataset inputs outs params)) (\<lambda>_.
      bindP (perform w Print) (\<lambda>_.
      bindP (perform w ListEmulators) (\<lambda>_.
      bindP (perform w (SummariseEmulator emulator)) (\<lambda>_.
      \<comment> \<open>predict and plot\<close>
      bindP (predict w emulator df_eval) (\<lambda>(df_mean, df_std).
      bindP (perform w (Display df_mean)) (\<lambda>_.
      bindP (perform w (Display df_std)) (\<lambda>_.
      bindP (liftE (plot_examples df_train df_eval df_mean df_std)) (\<lambda>fig.
      bindP (perform w (Plot Examples fig)) (\<lambda>_.
      bindP (liftE (plot_results sep df_train df_eval df_grid df_mean df_std outs)) (\<lambda>fig.
      bindP (perform w (Plot Results fig)) (\<lambda>_.
      \<comment> \<open>delete\<close>
      bindP (perform w (DeleteEmulator emulator)) (\<lambda>_.
      bindP (perform w (DeleteDataset dataset)) (\<lambda>_.
      returnP \<lparr>ns_train = df_train, ns_eval = df_eval, ns_grid = df_grid,
               ns_inputs = inputs, ns_outputs = outs,
               ns_mean = df_mean, ns_std = df_std\<rparr>)))))))))))))))))))))"

definition run :: "world \<Rightarrow> (error + namespace) \<times> entry list" where
  "run w = script w []"

definition result :: "world \<Rightarrow> error + namespace" where
  "result w = fst (run w)"

definition trace :: "world \<Rightarrow> entry list" where
  "trace w = snd (run w)"

definition events :: "world \<Rightarrow> event list" where
  "events w = map fst (trace w)"

subsection \<open>Observations on a trace\<close>

definition completes :: "world \<Rightarrow> bool" where
  "completes w = (case result w of Inl _ \<Rightarrow> False | Inr _ \<Rightarrow> True)"

text \<open>
  The step of the observable flow to which a call belongs: 1 load CSV files, 2 upload,
  3 list and inspect datasets, 4 train, 5 inspect the training, 6 predict, 7 plot,
  8 delete. Showing a table and printing the duration are no step of the flow.
\<close>

fun phase :: "event \<Rightarrow> nat option" where
  "phase (ReadCsv _ _) = Some 1"
| "phase (Upload _ _) = Some 2"
| "phase ListDatasets = Some 3"
| "phase (SummariseDataset _) = Some 3"
| "phase (Train _ _ _ _ _) = Some 4"
| "phase ListEmulators = Some 5"
| "phase (SummariseEmulator _) = Some 5"
| "phase (Predict _ _) = Some 6"
| "phase (Plot _ _) = Some 7"
| "phase (DeleteEmulator _) = Some 8"
| "phase (DeleteDataset _) = Some 8"
| "phase (Display _) = None"
| "phase Print = None"

definition flow :: "nat list" where
  "flow = [1, 1, 1, 2, 3, 3, 4, 5, 5, 6, 7, 7, 8, 8]"

text \<open>What a call does to the dataset, and to the emulator.\<close>

datatype lifecycle =
    Created string
  | Listed
  | Inspected string
  | Referenced string
  | Consumed string
  | Destroyed string

fun dataset_op :: "event \<Rightarrow> lifecycle option" where
  "dataset_op (Upload d _) = Some (Created d)"
| "dataset_op (SummariseDataset d) = Some (Inspected d)"
| "dataset_op (Train _ d _ _ _) = Some (Referenced d)"
| "dataset_op (DeleteDataset d) = Some (Destroyed d)"
| "dataset_op _ = None"

fun emulator_op :: "event \<Rightarrow> lifecycle option" where
  "emulator_op (Train e _ _ _ _) = Some (Created e)"
| "emulator_op ListEmulators = Some Listed"
| "emulator_op (SummariseEmulator e) = Some (Inspected e)"
| "emulator_op (Predict e _) = Some (Consumed e)"
| "emulator_op (DeleteEmulator e) = Some (Destroyed e)"
| "emulator_op _ = None"

text \<open>The remote calls, in the order the cells make them.\<close>

datatype remote_call =
    DatasetUpload
  | ListDatasetsCall
  | DatasetSummarise
  | EmulatorTrain
  | ListEmulatorsCall
  | EmulatorSummarise
  | EmulatorPredict
  | EmulatorDelete
  | DatasetDelete

fun remote :: "event \<Rightarrow> remote_call option" where
  "remote (Upload _ _) = Some DatasetUpload"
| "remote ListDatasets = Some ListDatasetsCall"
| "remote (SummariseDataset _) = Some DatasetSummarise"
| "remote (Train _ _ _ _ _) = Some EmulatorTrain"
| "remote ListEmulators = Some ListEmulatorsCall"
| "remote (SummariseEmulator _) = Some EmulatorSummarise"
| "remote (Predict _ _) = Some EmulatorPredict"
| "remote (DeleteEmulator _) = Some EmulatorDelete"
| "remote (DeleteDataset _) = Some DatasetDelete"
| "remote _ = None"

definition remote_calls :: "remote_call list" where
  "remote_calls =
     [DatasetUpload, ListDatasetsCall, DatasetSummarise, EmulatorTrain, ListEmulatorsCall,
      EmulatorSummarise, EmulatorPredict, EmulatorDelete, DatasetDelete]"

text \<open>The part of a trace that follows the prediction request.\<close>

fun is_predict :: "entry \<Rightarrow> bool" where
  "is_predict (Predict _ _, _) = True"
| "is_predict _ = False"

definition after_predict :: "entry list \<Rightarrow> entry list" where
  "after_predict tr = drop 1 (dropWhile (\<lambda>en. \<not> is_predict en) tr)"

text \<open>
  The table that a call other than a plot is given, and the reading of "only read for
  plotting": no call after the prediction request, the plots apart, is given one of the
  two predicted tables.
\<close>

fun given :: "event \<Rightarrow> table list" where
  "given (Display t) = [t]"
| "given (Upload _ t) = [t]"
| "given (Predict _ t) = [t]"
| "given _ = []"

definition read_by_plots_only :: "table \<Rightarrow> table \<Rightarrow> entry list \<Rightarrow> bool" where
  "read_by_plots_only m s tr =
     list_all (\<lambda>(ev, r). m \<notin> set (given ev) \<and> s \<notin> set (given ev)) (after_predict tr)"

text \<open>The table that a call hands to the remote service.\<close>

fun sent :: "event \<Rightarrow> table option" where
  "sent (Upload _ t) = Some t"
| "sent (Predict _ t) = Some t"
| "sent _ = None"

text \<open>
  In the results figure a black line is a training example or a test-data curve; the
  model's curves and bands have \<open>model_color\<close>.
\<close>

fun black_line :: "draw \<Rightarrow> bool" where
  "black_line (Line _ _ c _) = (c = ''black'')"
| "black_line _ = False"

fun label_of :: "draw \<Rightarrow> string option" where
  "label_of (ErrorBar _ _ _ _ l) = l"
| "label_of (Line _ _ _ l) = l"
| "label_of (FillBetween _ _ _ _ _ l) = l"
| "label_of (Blur _ _ _ _ l) = l"
| "label_of (LegendStub _ l) = l"
| "label_of _ = None"

text \<open>A curve or band over \<open>n\<close> grid points, with \<open>n\<close> values.\<close>

fun on_grid :: "nat \<Rightarrow> draw \<Rightarrow> bool" where
  "on_grid n (Line x y _ _) = (length x = n \<and> length y = n)"
| "on_grid n (FillBetween x m e _ _ _) = (length x = n \<and> length m = n \<and> length e = n)"
| "on_grid n (Blur x m e _ _) = (length x = n \<and> length m = n \<and> length e = n)"
| "on_grid n (XLim x) = (length x = n)"
| "on_grid n _ = True"

text \<open>
  Every training request of the trace names a dataset uploaded before it, and all its
  declared columns are columns of the table uploaded under that name.
\<close>

fun uploaded_when_trained :: "(string \<rightharpoonup> table) \<Rightarrow> entry list \<Rightarrow> bool" where
  "uploaded_when_trained ds [] = True"
| "uploaded_when_trained ds ((ev, r) # tr) =
     (case ev of
        Upload d t \<Rightarrow> uploaded_when_trained (ds(d \<mapsto> t)) tr
      | Train e d ins outs p \<Rightarrow>
          (case ds d of None \<Rightarrow> False | Some t \<Rightarrow> set (ins @ outs) \<subseteq> set (columns t))
          \<and> uploaded_when_trained ds tr
      | _ \<Rightarrow> uploaded_when_trained ds tr)"

subsection \<open>Example worlds\<close>

text \<open>
  A small world in which the script runs to its end: a training file with one row, five
  evaluation points, a grid of two temperatures, and a service that answers every call.
\<close>

definition demo_header :: "string list" where
  "demo_header = [''E1'', ''E2'', ''E3'', ''n1'', ''n2'', ''y0'', ''y1'', ''y100'', ''y150'']"

definition demo_row :: "string list" where
  "demo_row = [''0.9'', ''1.1'', ''1.4'', ''0.001'', ''0.004'', ''0'', ''2'', ''7'', ''3'']"

definition demo_train :: table where
  "demo_train = \<lparr>columns = map Name demo_header, rows = [demo_row]\<rparr>"

definition demo_eval :: table where
  "demo_eval = \<lparr>columns = map Name [''E1'', ''E2'', ''E3'', ''n1'', ''n2''],
                 rows = replicate 5 [''1.0'', ''1.2'', ''1.5'', ''0.002'', ''0.003'']\<rparr>"

definition demo_grid :: table where
  "demo_grid = \<lparr>columns = [Pos 0], rows = [[''300''], [''800'']]\<rparr>"

definition demo_files :: "string \<Rightarrow> error + string list list" where
  "demo_files p =
     (if p = ''resources/datasets/ukaea_big.csv'' then Inr [demo_header, demo_row]
      else if p = ''resources/campaigns/ukaea/test.csv''
      then Inr ([''E1'', ''E2'', ''E3'', ''n1'', ''n2'']
                # replicate 5 [''1.0'', ''1.2'', ''1.5'', ''0.002'', ''0.003''])
      else if p = ''resources/campaigns/ukaea/grid.csv'' then Inr [[''300''], [''800'']]
      else Inl (Failure ''FileNotFoundError''))"

definition demo_mean :: "table \<Rightarrow> table" where
  "demo_mean t = \<lparr>columns = map Name [''y0'', ''y1'', ''y100'', ''y150''],
                   rows = map (\<lambda>_. [''0'', ''2'', ''7'', ''3'']) (rows t)\<rparr>"

definition demo_std :: "table \<Rightarrow> table" where
  "demo_std t = \<lparr>columns = map Name [''y0'', ''y1'', ''y100'', ''y150''],
                  rows = map (\<lambda>_. [''1'', ''1'', ''1'', ''1'']) (rows t)\<rparr>"

definition demo_service :: "entry list \<Rightarrow> event \<Rightarrow> error + response" where
  "demo_service tr ev =
     (case ev of Predict e t \<Rightarrow> Inr (Tables (demo_mean t) (demo_std t)) | _ \<Rightarrow> Inr Ack)"

definition demo_world :: world where
  "demo_world = \<lparr>os_sep = CHR ''/'', files = demo_files, service = demo_service\<rparr>"

definition demo_examples :: "draw list" where
  "demo_examples =
     (case plot_examples demo_train demo_eval (demo_mean demo_eval) (demo_std demo_eval) of
        Inl _ \<Rightarrow> [] | Inr fig \<Rightarrow> fig)"

definition demo_results :: "draw list" where
  "demo_results =
     (case plot_results CHR ''/'' demo_train demo_eval demo_grid
             (demo_mean demo_eval) (demo_std demo_eval) [Name ''y0'', Name ''y1''] of
        Inl _ \<Rightarrow> [] | Inr fig \<Rightarrow> fig)"

definition demo_trace :: "entry list" where
  "demo_trace =
     [(ReadCsv ''resources/datasets/ukaea_big.csv'' True, Inr Ack),
      (ReadCsv ''resources/campaigns/ukaea/test.csv'' True, Inr Ack),
      (ReadCsv ''resources/campaigns/ukaea/grid.csv'' False, Inr Ack),
      (Display demo_train, Inr Ack),
      (Upload dataset_id demo_train, Inr Ack),
      (ListDatasets, Inr Ack),
      (SummariseDataset dataset_id, Inr Ack),
      (Train emulator_id dataset_id inputs [Name ''y0'', Name ''y1''] params, Inr Ack),
      (Print, Inr Ack),
      (ListEmulators, Inr Ack),
      (SummariseEmulator emulator_id, Inr Ack),
      (Predict emulator_id demo_eval, Inr (Tables (demo_mean demo_eval) (demo_std demo_eval))),
      (Display (demo_mean demo_eval), Inr Ack),
      (Display (demo_std demo_eval), Inr Ack),
      (Plot Examples demo_examples, Inr Ack),
      (Plot Results demo_results, Inr Ack),
      (DeleteEmulator emulator_id, Inr Ack),
      (DeleteDataset dataset_id, Inr Ack)]"

text \<open>The connection drops after the upload: every later remote call fails.\<close>

definition dropped_service :: "entry list \<Rightarrow> event \<Rightarrow> error + response" where
  "dropped_service tr ev =
     (case ev of Display t \<Rightarrow> Inr Ack | Upload d t \<Rightarrow> Inr Ack
      | _ \<Rightarrow> Inl (Failure ''ConnectionError''))"

definition dropped_world :: world where
  "dropped_world = \<lparr>os_sep = CHR ''/'', files = demo_files, service = dropped_service\<rparr>"

text \<open>A training file of 1001 data rows.\<close>

definition big_files :: "string \<Rightarrow> error + string list list" where
  "big_files p =
     (if p = ''resources/datasets/ukaea_big.csv''
      then Inr (demo_header # replicate 1001 demo_row)
      else demo_files p)"

definition big_world :: world where
  "big_world = \<lparr>os_sep = CHR ''/'', files = big_files, service = dropped_service\<rparr>"

definition big_upload :: table where
  "big_upload = \<lparr>columns = map Name demo_header, rows = replicate 1000 demo_row\<rparr>"

text \<open>A training file whose header has \<open>y0\<close> only, beside a grid of two temperatures.\<close>

definition short_header_files :: "string \<Rightarrow> error + string list list" where
  "short_header_files p =
     (if p = ''resources/datasets/ukaea_big.csv''
      then Inr [[''E1'', ''E2'', ''E3'', ''n1'', ''n2'', ''y0''],
                [''0.9'', ''1.1'', ''1.4'', ''0.001'', ''0.004'', ''0'']]
      else demo_files p)"

definition short_header_world :: world where
  "short_header_world =
     \<lparr>os_sep = CHR ''/'', files = short_header_files, service = demo_service\<rparr>"

section \<open>Running the script\<close>

lemma bindP_apply:
  "bindP m f tr = (case m tr of (Inl e, tr') \<Rightarrow> (Inl e, tr') | (Inr x, tr') \<Rightarrow> f x tr')"
  by (simp add: bindP_def)

lemma perform_apply: "perform w ev tr = (service w tr ev, tr @ [(ev, service w tr ev)])"
  by (simp add: perform_def Let_def)

lemma pd_read_csv_apply:
  "pd_read_csv w path header tr =
     (bindE (files w path) (pd_parse header),
      tr @ [(ReadCsv path header,
             map_sum id (\<lambda>_. Ack) (bindE (files w path) (pd_parse header)))])"
  by (simp add: pd_read_csv_def Let_def)

lemma liftE_apply: "liftE r tr = (r, tr)"
  by (simp add: liftE_def)

lemma returnP_apply: "returnP x tr = (Inr x, tr)"
  by (simp add: returnP_def)

lemma raiseP_apply: "raiseP e tr = (Inl e, tr)"
  by (simp add: raiseP_def)

lemmas run_defs = completes_def result_def events_def trace_def run_def script_def

lemmas run_simps =
  bindP_apply perform_apply pd_read_csv_apply liftE_apply returnP_apply raiseP_apply
  predict_def Let_def

lemma bindE_Inr: "bindE (Inr x) f = f x"
  by (simp add: bindE_def)

lemma pd_parse_Nil: "pd_parse header [] = Inl EmptyDataError"
  by (simp add: pd_parse_def)

lemma pd_parse_Cons:
  "pd_parse header (r # rs) =
     Inr (if header then \<lparr>columns = map Name r, rows = rs\<rparr>
          else \<lparr>columns = map Pos [0..<length r], rows = r # rs\<rparr>)"
  by (simp add: pd_parse_def)

lemma len_grid:
  assumes "files w p = Inr g" and "bindE (files w p) (pd_parse False) = Inr df_grid"
  shows "len df_grid = length g"
  using assms by (cases g) (auto simp: bindE_Inr pd_parse_Nil pd_parse_Cons len_def)

subsection \<open>The example worlds\<close>

lemma posix_paths:
  "file_train CHR ''/'' = ''resources/datasets/ukaea_big.csv''"
  "file_eval CHR ''/'' = ''resources/campaigns/ukaea/test.csv''"
  "file_grid CHR ''/'' = ''resources/campaigns/ukaea/grid.csv''"
  by (simp_all add: file_train_def file_eval_def file_grid_def emulator_dir_def
        startswith_def endswith_def)

lemma trace_demo_world: "trace demo_world = demo_trace"
  by code_simp

lemma completes_demo_world: "completes demo_world"
  by code_simp

lemma trace_dropped_world:
  "trace dropped_world =
     take 5 demo_trace @ [(ListDatasets, Inl (Failure ''ConnectionError''))]"
  by code_simp

lemma result_dropped_world: "result dropped_world = Inl (Failure ''ConnectionError'')"
  by code_simp

lemma upload_big_world: "(Upload dataset_id big_upload, Inr Ack) \<in> set (trace big_world)"
  unfolding run_defs
  by (simp add: run_simps big_world_def big_files_def demo_files_def big_upload_def dropped_service_def
        posix_paths bindE_Inr pd_parse_Cons iloc_rows_def)

subsection \<open>Figures\<close>

lemma forE_all:
  assumes "forE items body = Inr ds"
    and "\<And>x d. x \<in> set items \<Longrightarrow> body x = Inr d \<Longrightarrow> list_all P d"
  shows "list_all P ds"
  using assms
proof (induction items arbitrary: ds)
  case Nil
  then show ?case by simp
next
  case (Cons x items)
  from Cons.prems(1) obtain d ds' where
    d: "body x = Inr d" and ds': "forE items body = Inr ds'" and eq: "ds = d @ ds'"
    by (auto simp: bindE_def split: sum.splits)
  have "list_all P d"
    using Cons.prems(2) [of x d] d by simp
  moreover have "list_all P ds'"
    by (rule Cons.IH [OF ds']) (rule Cons.prems(2), simp_all)
  ultimately show ?case
    using eq by simp
qed

lemma plot_results_parts:
  assumes "plot_results sep df_train df_eval df_grid df_mean df_std outs = Inr fig"
  obtains grid model_curves where
    "iloc_col0 df_grid = Inr grid"
    "forE [0..<number_of_model_examples] (model_prediction sep df_eval df_mean df_std outs grid)
       = Inr model_curves"
    "fig = [Subplots 1 1]
       @ (if (plot_model_blur \<or> plot_model_bands) \<and> \<not> plot_model_mean
          then [LegendStub model_color (Some ''Model predictions'')] else [])
       @ model_curves
       @ [XLabel ''Temperature [K]'', XLim grid,
          YLabel (''Desorption rate [$10^{'' @ str_nat y_fac @ ''}$ $m^{-2}$ $s^{-1}$]''),
          YLim, Legend, Show]"
  using assms
  by (auto simp: plot_results_def number_of_training_examples_def bindE_def split: sum.splits)

lemma guard_false:
  assumes "sep = CHR ''/'' \<or> sep = CHR 0x5C"
  shows "\<not> test_data_guard sep"
  using assms
  by (auto simp: test_data_guard_def file_eval_def emulator_dir_def startswith_def endswith_def)

lemma model_prediction_no_test_data:
  assumes "model_prediction sep df_eval df_mean df_std outs grid example = Inr ds"
    and "\<not> test_data_guard sep"
  shows "list_all (\<lambda>d. \<not> black_line d \<and> label_of d \<noteq> Some ''Test data'') ds"
  using assms
  by (auto simp: model_prediction_def bindE_def model_color_def list_all_iff
           split: sum.splits if_splits)

lemma plot_results_no_test_data:
  assumes "plot_results sep df_train df_eval df_grid df_mean df_std outs = Inr fig"
    and "\<not> test_data_guard sep"
  shows "list_all (\<lambda>d. \<not> black_line d \<and> label_of d \<noteq> Some ''Test data'') fig"
proof -
  from assms(1) obtain grid model_curves where
    m: "forE [0..<number_of_model_examples]
          (model_prediction sep df_eval df_mean df_std outs grid) = Inr model_curves"
    and fig: "fig = [Subplots 1 1]
       @ (if (plot_model_blur \<or> plot_model_bands) \<and> \<not> plot_model_mean
          then [LegendStub model_color (Some ''Model predictions'')] else [])
       @ model_curves
       @ [XLabel ''Temperature [K]'', XLim grid,
          YLabel (''Desorption rate [$10^{'' @ str_nat y_fac @ ''}$ $m^{-2}$ $s^{-1}$]''),
          YLim, Legend, Show]"
    by (rule plot_results_parts)
  have "list_all (\<lambda>d. \<not> black_line d \<and> label_of d \<noteq> Some ''Test data'') model_curves"
    by (rule forE_all [OF m]) (rule model_prediction_no_test_data [OF _ assms(2)])
  then show ?thesis
    by (simp add: fig model_color_def)
qed

lemma length_output_row:
  assumes "output_row df outs example = Inr r"
  shows "length r = length outs"
  using assms
  by (auto simp: output_row_def getitems_def iloc_row_def bindE_def
           split: sum.splits list.splits if_splits)

lemma length_iloc_col0:
  assumes "iloc_col0 df = Inr grid"
  shows "length grid = len df"
  using assms by (auto simp: iloc_col0_def len_def split: if_splits)

lemma model_prediction_on_grid:
  assumes "model_prediction sep df_eval df_mean df_std outs grid example = Inr ds"
    and "length grid = length outs"
  shows "list_all (on_grid (length outs)) ds"
  using assms
  by (auto simp: model_prediction_def bindE_def list_all_iff dest!: length_output_row
           split: sum.splits if_splits)

lemma plot_results_on_grid:
  assumes "plot_results sep df_train df_eval df_grid df_mean df_std outs = Inr fig"
    and "length outs = len df_grid"
  shows "list_all (on_grid (len df_grid)) fig"
proof -
  from assms(1) obtain grid model_curves where
    g: "iloc_col0 df_grid = Inr grid"
    and m: "forE [0..<number_of_model_examples]
          (model_prediction sep df_eval df_mean df_std outs grid) = Inr model_curves"
    and fig: "fig = [Subplots 1 1]
       @ (if (plot_model_blur \<or> plot_model_bands) \<and> \<not> plot_model_mean
          then [LegendStub model_color (Some ''Model predictions'')] else [])
       @ model_curves
       @ [XLabel ''Temperature [K]'', XLim grid,
          YLabel (''Desorption rate [$10^{'' @ str_nat y_fac @ ''}$ $m^{-2}$ $s^{-1}$]''),
          YLim, Legend, Show]"
    by (rule plot_results_parts)
  have len: "length grid = length outs"
    using length_iloc_col0 [OF g] assms(2) by simp
  have "list_all (on_grid (length outs)) model_curves"
    by (rule forE_all [OF m]) (rule model_prediction_on_grid [OF _ len])
  then show ?thesis
    using len assms(2) by (simp add: fig)
qed

subsection \<open>Where the requests of a trace come from\<close>

lemma results_figure_origin:
  "\<forall>(ev, r) \<in> set (trace w). \<forall>fig. ev = Plot Results fig \<longrightarrow>
     (\<exists>df_train df_eval df_grid df_mean df_std.
        bindE (files w (file_grid (os_sep w))) (pd_parse False) = Inr df_grid \<and>
        plot_results (os_sep w) df_train df_eval df_grid df_mean df_std (outputs df_grid)
          = Inr fig)"
  unfolding run_defs
  apply (simp add: run_simps split: sum.split response.split)
  apply blast
  done

lemma train_request:
  "\<forall>(ev, r) \<in> set (trace w). \<forall>e d ins outs p. ev = Train e d ins outs p \<longrightarrow>
     (\<exists>df_grid. bindE (files w (file_grid (os_sep w))) (pd_parse False) = Inr df_grid \<and>
        e = emulator_id \<and> d = dataset_id \<and> ins = inputs \<and> outs = outputs df_grid \<and>
        p = params)"
  unfolding run_defs
  by (simp add: run_simps split: sum.split response.split)

section \<open>The claims\<close>

text \<open>
  Claim C2, as stated: when the training request is issued, every declared input column
  (E1, E2, E3, n1, n2) and every declared output column (y0 to y(N-1), N the number of
  rows of the grid file) is a column of the table uploaded as the referenced dataset.
  The script declares the output columns from the grid file and uploads the training
  file as it is; it compares the two nowhere. With a training file whose header stops at
  y0 and a grid of two rows, the training request declares y1, which the uploaded table
  does not have.
\<close>

theorem declared_columns_not_uploaded:
  "\<not> uploaded_when_trained Map.empty (trace short_header_world)"
  by code_simp

text \<open>
  Claim C2, amended: provided that the header of the training CSV has the columns E1, E2,
  E3, n1, n2 and y0 to y(N-1), N the number of rows of the grid file, every training
  request names a dataset that the script has uploaded before, and every declared input
  and output column is a column of the uploaded table. The script makes no check of its
  own.
\<close>

theorem declared_columns_uploaded_if_in_header:
  assumes "files w (file_train (os_sep w)) = Inr (hdr # recs)"
    and "files w (file_grid (os_sep w)) = Inr g"
    and "set (inputs @ map (\<lambda>i. Name (''y'' @ str_nat i)) [0..<length g]) \<subseteq> Name ` set hdr"
  shows "uploaded_when_trained Map.empty (trace w)"
proof (cases g)
  case Nil
  with assms(1,2) show ?thesis
    unfolding run_defs
    by (simp add: run_simps bindE_Inr pd_parse_Cons pd_parse_Nil
          split: sum.split response.split)
next
  case (Cons a rest)
  with assms show ?thesis
    unfolding run_defs
    by (simp add: run_simps bindE_Inr pd_parse_Cons iloc_rows_def outputs_def len_def
          split: sum.split response.split)
qed

theorem declared_columns_uploaded_witness:
  "files demo_world (file_train (os_sep demo_world)) = Inr (demo_header # [demo_row])
   \<and> files demo_world (file_grid (os_sep demo_world)) = Inr [[''300''], [''800'']]
   \<and> set (inputs @ map (\<lambda>i. Name (''y'' @ str_nat i)) [0..<length [[''300''], [''800'']]])
        \<subseteq> Name ` set demo_header
   \<and> uploaded_when_trained Map.empty (trace demo_world)"
proof -
  have f: "files demo_world (file_train (os_sep demo_world)) = Inr (demo_header # [demo_row])"
    by (simp add: demo_world_def posix_paths demo_files_def)
  have g: "files demo_world (file_grid (os_sep demo_world)) = Inr [[''300''], [''800'']]"
    by (simp add: demo_world_def posix_paths demo_files_def)
  have h: "set (inputs @ map (\<lambda>i. Name (''y'' @ str_nat i)) [0..<length [[''300''], [''800'']]])
        \<subseteq> Name ` set demo_header"
    by code_simp
  from declared_columns_uploaded_if_in_header [OF f g h] f g h show ?thesis
    by blast
qed

text \<open>
  Claim C3: the file reads and remote calls of the script occur in the order of the
  observable flow: load the CSV files, upload the dataset, list and inspect the datasets,
  request the training, inspect the training, request the predictions, plot, delete the
  emulator and the dataset. In every execution the steps reached are an initial part of
  this sequence, so none occurs out of order; an execution that completes goes through
  all of it.
\<close>

theorem flow_order:
  "prefix (List.map_filter phase (events w)) flow
   \<and> sorted (List.map_filter phase (events w))
   \<and> (completes w \<longrightarrow> List.map_filter phase (events w) = flow)"
  unfolding run_defs flow_def
  by (simp add: run_simps split: sum.split response.split)

theorem flow_order_witness:
  "completes demo_world \<and> List.map_filter phase (events demo_world) = flow"
  using flow_order [of demo_world] completes_demo_world by simp

text \<open>
  Claim C4: no remote call is handled locally or retried. The remote calls of an
  execution are an initial part of the nine calls of the script, each issued once, and
  all nine when the script completes; a remote call that raises an error is the last
  entry of the trace, occurs there once, and its error is the outcome of the script.
\<close>

theorem remote_failure_propagates:
  "prefix (List.map_filter remote (events w)) remote_calls
   \<and> (completes w \<longrightarrow> List.map_filter remote (events w) = remote_calls)
   \<and> (\<forall>ev e. remote ev \<noteq> None \<longrightarrow> (ev, Inl e) \<in> set (trace w) \<longrightarrow>
         result w = Inl e \<and> last (trace w) = (ev, Inl e)
         \<and> (ev, Inl e) \<notin> set (butlast (trace w)))"
  unfolding run_defs remote_calls_def
  by (simp add: run_simps split: sum.split response.split)

theorem remote_failure_propagates_witness:
  "completes demo_world
   \<and> List.map_filter remote (events demo_world) = remote_calls
   \<and> remote ListDatasets \<noteq> None
   \<and> (ListDatasets, Inl (Failure ''ConnectionError'')) \<in> set (trace dropped_world)
   \<and> result dropped_world = Inl (Failure ''ConnectionError'')
   \<and> last (trace dropped_world) = (ListDatasets, Inl (Failure ''ConnectionError''))"
proof -
  have m: "(ListDatasets, Inl (Failure ''ConnectionError'')) \<in> set (trace dropped_world)"
    by (simp add: trace_dropped_world)
  have r: "remote ListDatasets \<noteq> None"
    by simp
  from remote_failure_propagates [of demo_world] completes_demo_world
  have "List.map_filter remote (events demo_world) = remote_calls"
    by simp
  moreover from remote_failure_propagates [of dropped_world] r m
  have "result dropped_world = Inl (Failure ''ConnectionError'')
     \<and> last (trace dropped_world) = (ListDatasets, Inl (Failure ''ConnectionError''))"
    by blast
  ultimately show ?thesis
    using completes_demo_world r m by simp
qed

text \<open>
  Claim C5: the dataset is created by the upload, inspected, referenced by its identifier
  in the training request and destroyed by the explicit delete, in this order; the delete
  is the last operation on it, and no other call of the script creates or destroys it.
\<close>

theorem dataset_lifecycle:
  "prefix (List.map_filter dataset_op (events w))
     [Created dataset_id, Inspected dataset_id, Referenced dataset_id, Destroyed dataset_id]
   \<and> (completes w \<longrightarrow> List.map_filter dataset_op (events w) =
        [Created dataset_id, Inspected dataset_id, Referenced dataset_id,
         Destroyed dataset_id])"
  unfolding run_defs
  by (simp add: run_simps split: sum.split response.split)

theorem dataset_lifecycle_witness:
  "completes demo_world
   \<and> List.map_filter dataset_op (events demo_world) =
       [Created dataset_id, Inspected dataset_id, Referenced dataset_id, Destroyed dataset_id]"
  using dataset_lifecycle [of demo_world] completes_demo_world by simp

text \<open>
  Claim C6: the emulator is created by the training request, then queried by the listing
  and the summary, then consumed by the prediction request, then destroyed by the explicit
  delete; the four phases occur in this order and the delete is the last operation on it.
\<close>

theorem emulator_lifecycle:
  "prefix (List.map_filter emulator_op (events w))
     [Created emulator_id, Listed, Inspected emulator_id, Consumed emulator_id,
      Destroyed emulator_id]
   \<and> (completes w \<longrightarrow> List.map_filter emulator_op (events w) =
        [Created emulator_id, Listed, Inspected emulator_id, Consumed emulator_id,
         Destroyed emulator_id])"
  unfolding run_defs
  by (simp add: run_simps split: sum.split response.split)

theorem emulator_lifecycle_witness:
  "completes demo_world
   \<and> List.map_filter emulator_op (events demo_world) =
       [Created emulator_id, Listed, Inspected emulator_id, Consumed emulator_id,
        Destroyed emulator_id]"
  using emulator_lifecycle [of demo_world] completes_demo_world by simp

text \<open>
  Claim C7, as stated: after the prediction returns the two tables, the script reads them
  for local plotting only. The cell that requests the prediction goes on with
  \<^verbatim>\<open>display(df_mean)\<close> and \<^verbatim>\<open>display(df_std)\<close>: in the run of the example world the
  two tables are shown before any figure is drawn, a read that is no plotting.
\<close>

theorem prediction_displayed:
  "(Predict emulator_id demo_eval, Inr (Tables (demo_mean demo_eval) (demo_std demo_eval)))
     \<in> set (trace demo_world)
   \<and> \<not> read_by_plots_only (demo_mean demo_eval) (demo_std demo_eval) (trace demo_world)"
  by (simp add: trace_demo_world demo_trace_def read_by_plots_only_def after_predict_def)

text \<open>
  Claim C7, amended: the tables returned by the prediction are ephemeral. After the
  prediction request the script shows the two tables, draws the two figures and deletes
  the emulator and the dataset, and does nothing else: the tables are read for local
  display and plotting only, no later call writes a file or hands a table to the remote
  service, and when the script ends its variables still hold the two tables as the
  prediction returned them.
\<close>

theorem prediction_ephemeral:
  assumes "(Predict e t, Inr (Tables m s)) \<in> set (trace w)"
  shows "(\<exists>f1 f2. prefix (map fst (after_predict (trace w)))
            [Display m, Display s, Plot Examples f1, Plot Results f2,
             DeleteEmulator emulator_id, DeleteDataset dataset_id])
     \<and> (\<forall>ns. result w = Inr ns \<longrightarrow> ns_mean ns = m \<and> ns_std ns = s)"
  using assms unfolding run_defs after_predict_def
  by (simp add: run_simps split: sum.split_asm sum.split response.split_asm response.split)

theorem prediction_ephemeral_witness:
  "(Predict emulator_id demo_eval, Inr (Tables (demo_mean demo_eval) (demo_std demo_eval)))
     \<in> set (trace demo_world)
   \<and> map_sum id ns_mean (result demo_world) = Inr (demo_mean demo_eval)
   \<and> map_sum id ns_std (result demo_world) = Inr (demo_std demo_eval)"
proof -
  have p: "(Predict emulator_id demo_eval,
            Inr (Tables (demo_mean demo_eval) (demo_std demo_eval))) \<in> set (trace demo_world)"
    by (simp add: trace_demo_world demo_trace_def)
  obtain ns where ns: "result demo_world = Inr ns"
    using completes_demo_world by (auto simp: completes_def split: sum.splits)
  from prediction_ephemeral [OF p] ns
  have "ns_mean ns = demo_mean demo_eval \<and> ns_std ns = demo_std demo_eval"
    by blast
  with p ns show ?thesis
    by simp
qed

text \<open>
  Claim C8: in the results figure the test-data curve is never drawn. On a platform whose
  path separator is the slash or the backslash, \<open>file_eval\<close>, built by \<^verbatim>\<open>os.path.join\<close>,
  differs from \<open>emulator_dir + "test.csv"\<close>, so the guard is false; and no results figure
  of any execution has a black line or a curve labelled "Test data".
\<close>

theorem test_data_never_drawn:
  assumes "os_sep w = CHR ''/'' \<or> os_sep w = CHR 0x5C"
  shows "\<not> test_data_guard (os_sep w)
     \<and> (\<forall>fig r. (Plot Results fig, r) \<in> set (trace w) \<longrightarrow>
           list_all (\<lambda>d. \<not> black_line d \<and> label_of d \<noteq> Some ''Test data'') fig)"
proof (intro conjI allI impI)
  show g: "\<not> test_data_guard (os_sep w)"
    by (rule guard_false [OF assms])
  fix fig r
  assume "(Plot Results fig, r) \<in> set (trace w)"
  with results_figure_origin [of w] obtain df_train df_eval df_grid df_mean df_std where
    "plot_results (os_sep w) df_train df_eval df_grid df_mean df_std (outputs df_grid) = Inr fig"
    by blast
  from plot_results_no_test_data [OF this g]
  show "list_all (\<lambda>d. \<not> black_line d \<and> label_of d \<noteq> Some ''Test data'') fig" .
qed

theorem test_data_never_drawn_witness:
  "(os_sep demo_world = CHR ''/'' \<or> os_sep demo_world = CHR 0x5C)
   \<and> (Plot Results demo_results, Inr Ack) \<in> set (trace demo_world)
   \<and> \<not> test_data_guard (os_sep demo_world)
   \<and> list_all (\<lambda>d. \<not> black_line d \<and> label_of d \<noteq> Some ''Test data'') demo_results"
proof -
  have s: "os_sep demo_world = CHR ''/'' \<or> os_sep demo_world = CHR 0x5C"
    by (simp add: demo_world_def)
  have p: "(Plot Results demo_results, Inr Ack) \<in> set (trace demo_world)"
    by (simp add: trace_demo_world demo_trace_def)
  from test_data_never_drawn [OF s] p s show ?thesis
    by blast
qed

text \<open>
  Claim C9: the table uploaded as the training dataset is the training CSV cut to its
  first 1000 rows, all columns kept: a training CSV of more than 1000 data rows is
  uploaded as exactly its first 1000 rows. The only other table handed to the remote
  service is the evaluation table of the prediction request, so the rows beyond the
  first 1000 are never sent.
\<close>

theorem upload_truncated:
  assumes "files w (file_train (os_sep w)) = Inr (hdr # recs)"
    and "(ev, r) \<in> set (trace w)"
    and "sent ev = Some t"
  shows "ev = Upload dataset_id t \<and> columns t = map Name hdr \<and> rows t = take 1000 recs
           \<and> length (rows t) = min (length recs) 1000
       \<or> ev = Predict emulator_id t
           \<and> bindE (files w (file_eval (os_sep w))) (pd_parse True) = Inr t"
proof -
  have "\<forall>(ev, r) \<in> set (trace w). \<forall>t. sent ev = Some t \<longrightarrow>
     (ev = Upload dataset_id t \<and> columns t = map Name hdr \<and> rows t = take 1000 recs
           \<and> length (rows t) = min (length recs) 1000
       \<or> ev = Predict emulator_id t
           \<and> bindE (files w (file_eval (os_sep w))) (pd_parse True) = Inr t)"
    using assms(1) unfolding run_defs
    by (simp add: run_simps bindE_Inr pd_parse_Cons iloc_rows_def
          split: sum.split response.split)
  with assms(2,3) show ?thesis
    by blast
qed

theorem upload_truncated_witness:
  "files big_world (file_train (os_sep big_world)) = Inr (demo_header # replicate 1001 demo_row)
   \<and> (Upload dataset_id big_upload, Inr Ack) \<in> set (trace big_world)
   \<and> sent (Upload dataset_id big_upload) = Some big_upload
   \<and> rows big_upload = take 1000 (replicate 1001 demo_row)
   \<and> length (rows big_upload) = 1000"
proof -
  have f: "files big_world (file_train (os_sep big_world))
             = Inr (demo_header # replicate 1001 demo_row)"
    by (simp add: big_world_def posix_paths big_files_def)
  have s: "sent (Upload dataset_id big_upload) = Some big_upload"
    by simp
  from upload_truncated [OF f upload_big_world s]
  have "rows big_upload = take 1000 (replicate 1001 demo_row)
      \<and> length (rows big_upload) = min (length (replicate 1001 demo_row)) 1000"
    by simp
  with f s upload_big_world show ?thesis
    by simp
qed

text \<open>
  Claim C10: the declared output columns are exactly y0, y1, ..., y(N-1), N the number of
  records of the grid CSV (read with \<^verbatim>\<open>header=None\<close>, every record is a row); hence
  the number of output columns requested from the emulator is the number of temperature
  grid points, and every curve and band of the results figure has N points.
\<close>

theorem outputs_match_grid:
  assumes "files w (file_grid (os_sep w)) = Inr g"
  shows "(\<forall>e d ins outs p r. (Train e d ins outs p, r) \<in> set (trace w) \<longrightarrow>
            outs = map (\<lambda>i. Name (''y'' @ str_nat i)) [0..<length g]
            \<and> length outs = length g)
     \<and> (\<forall>fig r. (Plot Results fig, r) \<in> set (trace w) \<longrightarrow>
            list_all (on_grid (length g)) fig)"
proof (intro conjI allI impI)
  fix e d ins outs p r
  assume "(Train e d ins outs p, r) \<in> set (trace w)"
  with train_request [of w] obtain df_grid where
    "bindE (files w (file_grid (os_sep w))) (pd_parse False) = Inr df_grid"
    "outs = outputs df_grid"
    by blast
  with len_grid [OF assms]
  show o: "outs = map (\<lambda>i. Name (''y'' @ str_nat i)) [0..<length g]"
    by (simp add: outputs_def)
  show "length outs = length g"
    by (simp add: o)
next
  fix fig r
  assume "(Plot Results fig, r) \<in> set (trace w)"
  with results_figure_origin [of w] obtain df_train df_eval df_grid df_mean df_std where
    g: "bindE (files w (file_grid (os_sep w))) (pd_parse False) = Inr df_grid"
    and "plot_results (os_sep w) df_train df_eval df_grid df_mean df_std (outputs df_grid)
           = Inr fig"
    by blast
  from plot_results_on_grid [OF this(2)] len_grid [OF assms g]
  show "list_all (on_grid (length g)) fig"
    by (simp add: outputs_def)
qed

theorem outputs_match_grid_witness:
  "files demo_world (file_grid (os_sep demo_world)) = Inr [[''300''], [''800'']]
   \<and> (Train emulator_id dataset_id inputs [Name ''y0'', Name ''y1''] params, Inr Ack)
        \<in> set (trace demo_world)
   \<and> (Plot Results demo_results, Inr Ack) \<in> set (trace demo_world)
   \<and> [Name ''y0'', Name ''y1'']
        = map (\<lambda>i. Name (''y'' @ str_nat i)) [0..<length [[''300''], [''800'']]]
   \<and> list_all (on_grid (length [[''300''], [''800'']])) demo_results"
proof -
  have g: "files demo_world (file_grid (os_sep demo_world)) = Inr [[''300''], [''800'']]"
    by (simp add: demo_world_def posix_paths demo_files_def)
  have t: "(Train emulator_id dataset_id inputs [Name ''y0'', Name ''y1''] params, Inr Ack)
             \<in> set (trace demo_world)"
    by (simp add: trace_demo_world demo_trace_def)
  have p: "(Plot Results demo_results, Inr Ack) \<in> set (trace demo_world)"
    by (simp add: trace_demo_world demo_trace_def)
  from outputs_match_grid [OF g] t p g show ?thesis
    by blast
qed

end
